theory Spec2Isabelle
  imports Complex_Main "HOL-Library.Multiset"
begin

section \<open>Numbers\<close>

text \<open>
  Python and numpy floats are modelled by real numbers, with two refinements. In
  \<^verbatim>\<open>agent/policy_rules.py\<close> the confidence is only compared with constants; a NaN
  there fails every comparison, exactly as a confidence below every threshold does, so the
  reals lose no behaviour of that function. In \<^verbatim>\<open>inference/temporal_aggregation.py\<close> a
  NaN among the inputs changes the result, so the scores there are of type \<open>pyfloat\<close>: a
  real number or NaN; an infinite input behaves there as any real number outside the unit
  interval does, since it is clipped first. In \<^verbatim>\<open>inference/audio_infer.py\<close> the fused
  score is a sum of products of doubles, and whether it equals a given number depends on
  the rounding of each operation, so that sum is computed with \<open>fl64\<close> below. The
  confidence of the audio path ends in a clip to the constants 0.3 and 0.95 and is
  modelled without rounding.
\<close>

datatype pyfloat = Finite real | NaN

text \<open>
  Rounding to the nearest double (IEEE 754 binary64, ties to the even significand): a
  number with binary exponent \<open>e\<close>, at least \<open>-1022\<close>, is rounded to a multiple of
  \<open>2\<close> to the power \<open>e - 52\<close>. Overflow beyond the largest double is not modelled; the
  numbers rounded here are below 2.
\<close>

definition round_half_even :: "real \<Rightarrow> int" where
  "round_half_even y =
     (let f = \<lfloor>y\<rfloor>; d = y - of_int f
      in if d < 1 / 2 then f
         else if d > 1 / 2 then f + 1
         else if even f then f else f + 1)"

definition fl64 :: "real \<Rightarrow> real" where
  "fl64 r =
     (if r = 0 then 0
      else
        let e = max \<lfloor>log 2 \<bar>r\<bar>\<rfloor> (- 1022);
            q = 2 powr (of_int (e - 52))
        in of_int (round_half_even (r / q)) * q)"

section \<open>Configuration: \<^verbatim>\<open>app/config.py\<close>\<close>

text \<open>
  The fields of class \<^verbatim>\<open>Settings\<close> that the decision logic reads. The module-level
  singleton \<^verbatim>\<open>settings = Settings()\<close> is the constant \<open>settings\<close>; the functions that
  read the singleton take it as their first argument \<open>cfg\<close>.
\<close>

record Settings =
  RUNTIME_MODE :: string
  DEEPFAKE_THRESHOLD_HIGH :: real
  DEEPFAKE_THRESHOLD_LOW :: real

definition settings :: Settings where
  "settings = \<lparr>RUNTIME_MODE = ''EDGE_OFFLINE'',
               DEEPFAKE_THRESHOLD_HIGH = 0.75,
               DEEPFAKE_THRESHOLD_LOW = 0.40\<rparr>"

section \<open>Policy rules: \<^verbatim>\<open>agent/policy_rules.py\<close>\<close>

text \<open>
  The three local variables of \<^verbatim>\<open>apply_policy_rules\<close> that the rules update in turn.
\<close>

record policy_vars =
  final_verdict :: string
  final_risk_level :: string
  policy_flags :: "string list"

text \<open>The returned dictionary, one field per key.\<close>

record policy_decision =
  verdict :: string
  risk_level :: string
  policy_applied :: "string list"
  action_required :: string

text \<open>Rule 1, extreme confidence override (lines 33 to 35).\<close>

definition rule1 :: "real \<Rightarrow> policy_vars \<Rightarrow> policy_vars" where
  "rule1 confidence st =
     (if confidence > 0.98
      then st\<lparr>final_risk_level := ''CRITICAL'',
              policy_flags := policy_flags st @ [''EXTREME_CONFIDENCE_LOCK'']\<rparr>
      else st)"

text \<open>Rule 2, the ambiguity zone (lines 40 to 43).\<close>

definition rule2 :: "Settings \<Rightarrow> real \<Rightarrow> policy_vars \<Rightarrow> policy_vars" where
  "rule2 cfg confidence st =
     (if DEEPFAKE_THRESHOLD_LOW cfg < confidence \<and> confidence < DEEPFAKE_THRESHOLD_HIGH cfg
      then st\<lparr>final_verdict := ''UNCERTAIN'',
              final_risk_level := ''MEDIUM'',
              policy_flags := policy_flags st @ [''REQUIRES_HUMAN_REVIEW'']\<rparr>
      else st)"

text \<open>Rule 3, edge case safety (lines 48 to 50).\<close>

definition rule3 :: "Settings \<Rightarrow> policy_vars \<Rightarrow> policy_vars" where
  "rule3 cfg st =
     (if RUNTIME_MODE cfg = ''EDGE_OFFLINE'' \<and> final_verdict st = ''UNCERTAIN''
      then st\<lparr>final_risk_level := ''HIGH'',
              policy_flags := policy_flags st @ [''OFFLINE_PRECAUTIONARY_ESCALATION'']\<rparr>
      else st)"

text \<open>The initial values of the three variables (lines 26 to 28).\<close>

definition init_vars :: "string \<Rightarrow> string \<Rightarrow> policy_vars" where
  "init_vars verdict_in risk_level_in =
     \<lparr>final_verdict = verdict_in, final_risk_level = risk_level_in, policy_flags = []\<rparr>"

text \<open>The returned dictionary (lines 56 to 61).\<close>

definition decision_of :: "policy_vars \<Rightarrow> policy_decision" where
  "decision_of st =
     \<lparr>verdict = final_verdict st,
      risk_level = final_risk_level st,
      policy_applied = policy_flags st,
      action_required =
        (if final_risk_level st \<in> set [''HIGH'', ''CRITICAL'']
         then ''MANUAL_INSPECTION'' else ''NONE'')\<rparr>"

definition apply_policy_rules :: "Settings \<Rightarrow> string \<Rightarrow> real \<Rightarrow> string \<Rightarrow> policy_decision" where
  "apply_policy_rules cfg verdict_in confidence risk_level_in =
     decision_of (rule3 cfg (rule2 cfg confidence (rule1 confidence
       (init_vars verdict_in risk_level_in))))"

text \<open>
  Modelled from the spec: the order LOW < MEDIUM < HIGH < CRITICAL of section 3 (RiskLevel).
  The code compares risk levels for equality only and has no such order. A string that is
  none of the four levels has no rank and is related to nothing.
\<close>

definition risk_rank :: "string \<Rightarrow> nat option" where
  "risk_rank r =
     (if r = ''LOW'' then Some 0
      else if r = ''MEDIUM'' then Some 1
      else if r = ''HIGH'' then Some 2
      else if r = ''CRITICAL'' then Some 3
      else None)"

definition risk_le :: "string \<Rightarrow> string \<Rightarrow> bool" where
  "risk_le a b =
     (case risk_rank a of
        None \<Rightarrow> False
      | Some i \<Rightarrow> (case risk_rank b of None \<Rightarrow> False | Some j \<Rightarrow> i \<le> j))"

text \<open>
  Modelled from the spec: \<^verbatim>\<open>classify\<close> of section 4.3 (VerdictClassifier). No source file
  of the repository defines the classification step; the definition follows the three
  bullet points of the contract in their order.
\<close>

definition classify :: "real \<Rightarrow> real \<Rightarrow> real \<Rightarrow> string \<times> string" where
  "classify confidence threshold_low threshold_high =
     (if confidence \<ge> threshold_high then (''DEEPFAKE'', ''HIGH'')
      else if confidence \<le> threshold_low then (''REAL'', ''LOW'')
      else (''UNCERTAIN'', ''MEDIUM''))"

section \<open>Temporal aggregation: \<^verbatim>\<open>inference/temporal_aggregation.py\<close>\<close>

text \<open>
  The numpy functions the aggregation calls, after numpy's documentation. The values of an
  array that holds no NaN:
\<close>

fun finite_values :: "pyfloat list \<Rightarrow> real list" where
  "finite_values [] = []"
| "finite_values (Finite x # a) = x # finite_values a"
| "finite_values (NaN # a) = finite_values a"

text \<open>
  \<^verbatim>\<open>np.clip(a, a_min, a_max)\<close> is the minimum of \<open>a_max\<close> and the maximum of \<open>a\<close> and
  \<open>a_min\<close>, element by element; a NaN stays a NaN.
\<close>

fun clip_value :: "real \<Rightarrow> real \<Rightarrow> pyfloat \<Rightarrow> pyfloat" where
  "clip_value a_min a_max (Finite x) = Finite (min (max x a_min) a_max)"
| "clip_value a_min a_max NaN = NaN"

definition np_clip :: "pyfloat list \<Rightarrow> real \<Rightarrow> real \<Rightarrow> pyfloat list" where
  "np_clip a a_min a_max = map (clip_value a_min a_max) a"

text \<open>
  \<^verbatim>\<open>np.percentile(a, q)\<close> with the default method, linear interpolation: in the sorted
  array the virtual index is \<open>q / 100 * (n - 1)\<close>, and the result lies between the elements
  at its floor and at the next index, in proportion to its fractional part. A NaN in the
  array makes the result NaN. The aggregation calls it with \<open>q\<close> 5 and 95 on a non-empty
  array only, so both indices are within the array.
\<close>

definition percentile_linear :: "real list \<Rightarrow> real \<Rightarrow> real" where
  "percentile_linear xs q =
     (let arr = sort xs;
          n = length arr;
          virtual_index = (q / 100) * real (n - 1);
          previous_index = nat \<lfloor>virtual_index\<rfloor>;
          next_index = min (previous_index + 1) (n - 1);
          gamma = virtual_index - real previous_index
      in arr ! previous_index + gamma * (arr ! next_index - arr ! previous_index))"

definition np_percentile :: "pyfloat list \<Rightarrow> real \<Rightarrow> pyfloat" where
  "np_percentile a q =
     (if a = [] \<or> NaN \<in> set a then NaN
      else Finite (percentile_linear (finite_values a) q))"

text \<open>
  \<^verbatim>\<open>np.median(a)\<close>: the middle element of the sorted array, or the mean of the two middle
  elements when the length is even; NaN when the array holds a NaN.
\<close>

definition median_sorted :: "real list \<Rightarrow> real" where
  "median_sorted arr =
     (let n = length arr
      in if n mod 2 = 1 then arr ! (n div 2)
         else (arr ! (n div 2 - 1) + arr ! (n div 2)) / 2)"

definition np_median :: "pyfloat list \<Rightarrow> pyfloat" where
  "np_median a =
     (if a = [] \<or> NaN \<in> set a then NaN
      else Finite (median_sorted (sort (finite_values a))))"

text \<open>The comparison \<^verbatim>\<open><=\<close> of two floats: false as soon as one of them is NaN.\<close>

fun float_le :: "pyfloat \<Rightarrow> pyfloat \<Rightarrow> bool" where
  "float_le (Finite x) (Finite y) = (x \<le> y)"
| "float_le _ _ = False"

text \<open>
  Lines 31 to 37 of \<^verbatim>\<open>aggregate_predictions\<close>: the scores between the 5th and the 95th
  percentile, both included, or all the scores when none is left.
\<close>

definition remove_outliers :: "pyfloat list \<Rightarrow> pyfloat list" where
  "remove_outliers scores =
     (let lower = np_percentile scores 5;
          upper = np_percentile scores 95;
          filtered_scores = filter (\<lambda>s. float_le lower s \<and> float_le s upper) scores
      in if length filtered_scores = 0 then scores else filtered_scores)"

text \<open>
  \<^verbatim>\<open>aggregate_predictions\<close>. The call of \<^verbatim>\<open>log_event\<close> before the return writes a log
  line, catches its own file errors and does not change the result.
\<close>

definition aggregate_predictions :: "pyfloat list \<Rightarrow> pyfloat" where
  "aggregate_predictions predictions =
     (if predictions = [] then Finite 0
      else np_median (remove_outliers (np_clip predictions 0 1)))"

text \<open>The ten per-face scores of the end-to-end scenario of section 8 of the spec.\<close>

definition scenario_scores :: "pyfloat list" where
  "scenario_scores =
     map Finite [0.81, 0.79, 0.83, 0.80, 0.05, 0.82, 0.78, 0.84, 0.80, 0.77]"

section \<open>Audio fusion: \<^verbatim>\<open>inference/audio_infer.py\<close>\<close>

text \<open>
  The dictionary \<^verbatim>\<open>signals\<close> of \<^verbatim>\<open>analyze_audio\<close> is built with five fixed keys, and
  so is \<^verbatim>\<open>weights\<close>: both are records with one field per key. The five signal values come
  from librosa features of the audio file and are the input here.
\<close>

record signals =
  spectral_inconsistency :: real
  pitch_abnormality :: real
  energy_gaps :: real
  high_freq_artifacts :: real
  temporal_discontinuity :: real

text \<open>The weights are the doubles that the literals 0.25, 0.20 and 0.15 denote.\<close>

definition weights :: signals where
  "weights = \<lparr>spectral_inconsistency = fl64 0.25,
               pitch_abnormality = fl64 0.20,
               energy_gaps = fl64 0.15,
               high_freq_artifacts = fl64 0.25,
               temporal_discontinuity = fl64 0.15\<rparr>"

text \<open>The values of such a dictionary in the order of its keys.\<close>

definition signal_values :: "signals \<Rightarrow> real list" where
  "signal_values d =
     [spectral_inconsistency d, pitch_abnormality d, energy_gaps d,
      high_freq_artifacts d, temporal_discontinuity d]"

text \<open>
  Line 60: \<^verbatim>\<open>sum\<close> starts from 0 and adds, from left to right in the order of the
  keys of \<^verbatim>\<open>weights\<close>, the products of signal and weight; every product and every
  addition is a double operation and is rounded. (This is the plain summation of CPython
  up to version 3.11; later versions carry a compensation term along.)
\<close>

definition final_score :: "signals \<Rightarrow> real" where
  "final_score sig =
     foldl (\<lambda>acc t. fl64 (acc + t)) 0
       (map2 (\<lambda>s w. fl64 (s * w)) (signal_values sig) (signal_values weights))"

text \<open>
  \<^verbatim>\<open>np.mean\<close> and \<^verbatim>\<open>np.std\<close> (the population standard deviation: the square root of the
  mean of the squared absolute deviations from the mean), and \<^verbatim>\<open>np.clip\<close> on one number.
\<close>

definition np_mean :: "real list \<Rightarrow> real" where
  "np_mean xs = sum_list xs / real (length xs)"

definition np_std :: "real list \<Rightarrow> real" where
  "np_std xs = sqrt (np_mean (map (\<lambda>x. \<bar>x - np_mean xs\<bar> ^ 2) xs))"

definition clip_scalar :: "real \<Rightarrow> real \<Rightarrow> real \<Rightarrow> real" where
  "clip_scalar x a_min a_max = min (max x a_min) a_max"

text \<open>\<^verbatim>\<open>_calculate_confidence\<close> (lines 189 to 195).\<close>

definition calculate_confidence :: "signals \<Rightarrow> real" where
  "calculate_confidence sig =
     (let scores = signal_values sig;
          agreement = 1.0 - np_std scores
      in clip_scalar agreement 0.3 0.95)"

section \<open>Properties of the policy rules\<close>

text \<open>
  C2. With the shipped thresholds 0.40 and 0.75 and runtime mode EDGE_OFFLINE, the input
  (UNCERTAIN, 0.5, MEDIUM) gives risk level HIGH, action MANUAL_INSPECTION and the flags
  REQUIRES_HUMAN_REVIEW, OFFLINE_PRECAUTIONARY_ESCALATION in that order: rule 1 leaves the
  variables alone, rule 2 appends the first flag and rule 3 the second.
\<close>

theorem offline_uncertain_decision:
  "RUNTIME_MODE settings = ''EDGE_OFFLINE''
   \<and> rule1 0.5 (init_vars ''UNCERTAIN'' ''MEDIUM'') = init_vars ''UNCERTAIN'' ''MEDIUM''
   \<and> policy_flags (rule2 settings 0.5 (init_vars ''UNCERTAIN'' ''MEDIUM''))
       = [''REQUIRES_HUMAN_REVIEW'']
   \<and> apply_policy_rules settings ''UNCERTAIN'' 0.5 ''MEDIUM''
       = \<lparr>verdict = ''UNCERTAIN'',
          risk_level = ''HIGH'',
          policy_applied = [''REQUIRES_HUMAN_REVIEW'', ''OFFLINE_PRECAUTIONARY_ESCALATION''],
          action_required = ''MANUAL_INSPECTION''\<rparr>"
  by (simp add: apply_policy_rules_def decision_of_def rule1_def rule2_def rule3_def
      init_vars_def settings_def)

text \<open>
  C5. Whenever the confidence exceeds 0.98, rule 1 sets the working risk level to CRITICAL
  and appends the flag EXTREME_CONFIDENCE_LOCK, whatever the verdict, the risk level and the
  flags were before; the flag is then part of the returned flags for every configuration,
  and the returned level is CRITICAL, with action MANUAL_INSPECTION, when neither rule 2
  nor rule 3 fires after it. In particular (DEEPFAKE, 0.99, HIGH) in mode EDGE_ONLINE with
  the shipped thresholds returns risk level CRITICAL with exactly that flag.
\<close>

theorem extreme_confidence_lock:
  "confidence > 0.98 \<Longrightarrow>
     final_risk_level (rule1 confidence st) = ''CRITICAL''
     \<and> policy_flags (rule1 confidence st) = policy_flags st @ [''EXTREME_CONFIDENCE_LOCK'']
     \<and> final_verdict (rule1 confidence st) = final_verdict st
     \<and> ''EXTREME_CONFIDENCE_LOCK''
           \<in> set (policy_applied (apply_policy_rules cfg verdict_in confidence risk_level_in))
     \<and> (\<not> (DEEPFAKE_THRESHOLD_LOW cfg < confidence \<and> confidence < DEEPFAKE_THRESHOLD_HIGH cfg)
          \<and> \<not> (RUNTIME_MODE cfg = ''EDGE_OFFLINE'' \<and> verdict_in = ''UNCERTAIN'') \<longrightarrow>
          apply_policy_rules cfg verdict_in confidence risk_level_in
            = \<lparr>verdict = verdict_in, risk_level = ''CRITICAL'',
               policy_applied = [''EXTREME_CONFIDENCE_LOCK''],
               action_required = ''MANUAL_INSPECTION''\<rparr>)
     \<and> apply_policy_rules (settings\<lparr>RUNTIME_MODE := ''EDGE_ONLINE''\<rparr>) ''DEEPFAKE'' 0.99 ''HIGH''
         = \<lparr>verdict = ''DEEPFAKE'', risk_level = ''CRITICAL'',
            policy_applied = [''EXTREME_CONFIDENCE_LOCK''],
            action_required = ''MANUAL_INSPECTION''\<rparr>"
  by (simp add: apply_policy_rules_def decision_of_def rule1_def rule2_def rule3_def
      init_vars_def settings_def)

theorem extreme_confidence_lock_witness:
  "(0.99::real) > 0.98
   \<and> final_risk_level (rule1 0.99 (init_vars ''REAL'' ''LOW'')) = ''CRITICAL''
   \<and> policy_flags (rule1 0.99 (init_vars ''REAL'' ''LOW'')) = [''EXTREME_CONFIDENCE_LOCK'']
   \<and> ''EXTREME_CONFIDENCE_LOCK''
         \<in> set (policy_applied (apply_policy_rules settings ''REAL'' 0.99 ''LOW''))
   \<and> \<not> (DEEPFAKE_THRESHOLD_LOW settings < 0.99 \<and> 0.99 < DEEPFAKE_THRESHOLD_HIGH settings)
   \<and> \<not> (RUNTIME_MODE settings = ''EDGE_OFFLINE'' \<and> ''REAL'' = ''UNCERTAIN'')
   \<and> apply_policy_rules settings ''REAL'' 0.99 ''LOW''
       = \<lparr>verdict = ''REAL'', risk_level = ''CRITICAL'',
          policy_applied = [''EXTREME_CONFIDENCE_LOCK''],
          action_required = ''MANUAL_INSPECTION''\<rparr>"
proof -
  have h: "(0.99::real) > 0.98" by simp
  show ?thesis
    using h extreme_confidence_lock [OF h, of "init_vars ''REAL'' ''LOW''" settings "''REAL''" "''LOW''"]
    by (simp add: init_vars_def settings_def)
qed

text \<open>
  C10. Under the shipped configuration no call returns both EXTREME_CONFIDENCE_LOCK and
  REQUIRES_HUMAN_REVIEW: for every confidence, either rule 1 leaves the variables unchanged
  or rule 2 does, because a confidence above 0.98 is not below 0.75. A CRITICAL set by
  rule 1 is therefore never reset to MEDIUM by rule 2.
\<close>

theorem shipped_lock_and_review_disjoint:
  "\<not> (''EXTREME_CONFIDENCE_LOCK''
          \<in> set (policy_applied (apply_policy_rules settings verdict_in confidence risk_level_in))
       \<and> ''REQUIRES_HUMAN_REVIEW''
          \<in> set (policy_applied (apply_policy_rules settings verdict_in confidence risk_level_in)))
   \<and> (rule1 confidence st = st \<or> rule2 settings confidence (rule1 confidence st) = rule1 confidence st)"
  by (simp add: apply_policy_rules_def decision_of_def rule1_def rule2_def rule3_def
      init_vars_def settings_def)

text \<open>
  C1 as stated does not hold. Rule 1 sets CRITICAL and rule 3 then sets HIGH when the
  verdict is UNCERTAIN in mode EDGE_OFFLINE; and in mode EDGE_ONLINE rule 2 replaces an
  initial HIGH by MEDIUM.
\<close>

theorem risk_lowered_counterexample:
  "final_risk_level (rule1 0.99 (init_vars ''UNCERTAIN'' ''MEDIUM'')) = ''CRITICAL''
   \<and> risk_level (apply_policy_rules settings ''UNCERTAIN'' 0.99 ''MEDIUM'') = ''HIGH''
   \<and> \<not> risk_le ''CRITICAL'' ''HIGH''
   \<and> risk_level (apply_policy_rules (settings\<lparr>RUNTIME_MODE := ''EDGE_ONLINE''\<rparr>)
         ''DEEPFAKE'' 0.5 ''HIGH'') = ''MEDIUM''
   \<and> \<not> risk_le ''HIGH'' ''MEDIUM''"
  by (simp add: apply_policy_rules_def decision_of_def rule1_def rule2_def rule3_def
      init_vars_def settings_def risk_le_def risk_rank_def)

lemma risk_le_CRITICAL:
  "r \<in> set [''LOW'', ''MEDIUM'', ''HIGH'', ''CRITICAL''] \<Longrightarrow> risk_le r ''CRITICAL''"
  by (auto simp add: risk_le_def risk_rank_def)

lemma risk_le_HIGH:
  "r \<in> set [''LOW'', ''MEDIUM'', ''HIGH''] \<Longrightarrow> risk_le r ''HIGH''"
  by (auto simp add: risk_le_def risk_rank_def)

lemma risk_le_refl:
  "r \<in> set [''LOW'', ''MEDIUM'', ''HIGH'', ''CRITICAL''] \<Longrightarrow> risk_le r r"
  by (auto simp add: risk_le_def risk_rank_def)

text \<open>
  C1, amended. For an initial risk level LOW, MEDIUM or HIGH (the levels the docstring
  admits): rule 1 never lowers the level. Rule 2, when the confidence lies strictly between
  the two thresholds, resets the working level to MEDIUM whatever it was, and the call then
  returns MEDIUM, or HIGH in mode EDGE_OFFLINE. When rule 2 does not fire, the returned
  level is at least the initial one; the case where rule 1 and rule 3 both fire (confidence
  above 0.98, verdict UNCERTAIN, mode EDGE_OFFLINE) is left open.
\<close>

theorem risk_level_changes:
  "risk_level_in \<in> set [''LOW'', ''MEDIUM'', ''HIGH''] \<Longrightarrow>
     risk_le risk_level_in
       (final_risk_level (rule1 confidence (init_vars verdict_in risk_level_in)))
     \<and> ((DEEPFAKE_THRESHOLD_LOW cfg < confidence \<and> confidence < DEEPFAKE_THRESHOLD_HIGH cfg) \<longrightarrow>
          final_risk_level (rule2 cfg confidence st) = ''MEDIUM''
          \<and> risk_level (apply_policy_rules cfg verdict_in confidence risk_level_in)
              = (if RUNTIME_MODE cfg = ''EDGE_OFFLINE'' then ''HIGH'' else ''MEDIUM''))
     \<and> (\<not> (DEEPFAKE_THRESHOLD_LOW cfg < confidence \<and> confidence < DEEPFAKE_THRESHOLD_HIGH cfg)
          \<and> \<not> (confidence > 0.98 \<and> RUNTIME_MODE cfg = ''EDGE_OFFLINE''
                 \<and> verdict_in = ''UNCERTAIN'') \<longrightarrow>
          risk_le risk_level_in
            (risk_level (apply_policy_rules cfg verdict_in confidence risk_level_in)))"
  using risk_le_CRITICAL [of risk_level_in] risk_le_HIGH [of risk_level_in]
    risk_le_refl [of risk_level_in]
  by (auto simp add: apply_policy_rules_def decision_of_def rule1_def rule2_def rule3_def
      init_vars_def)

theorem risk_level_changes_witness:
  "''HIGH'' \<in> set [''LOW'', ''MEDIUM'', ''HIGH'']
   \<and> DEEPFAKE_THRESHOLD_LOW settings < 0.5 \<and> 0.5 < DEEPFAKE_THRESHOLD_HIGH settings
   \<and> final_risk_level (rule2 settings 0.5 (rule1 0.5 (init_vars ''DEEPFAKE'' ''HIGH'')))
       = ''MEDIUM''
   \<and> risk_level (apply_policy_rules settings ''DEEPFAKE'' 0.5 ''HIGH'') = ''HIGH''
   \<and> \<not> (DEEPFAKE_THRESHOLD_LOW settings < 0.9 \<and> 0.9 < DEEPFAKE_THRESHOLD_HIGH settings)
   \<and> \<not> ((0.9::real) > 0.98 \<and> RUNTIME_MODE settings = ''EDGE_OFFLINE''
          \<and> ''DEEPFAKE'' = ''UNCERTAIN'')
   \<and> risk_le ''HIGH'' (risk_level (apply_policy_rules settings ''DEEPFAKE'' 0.9 ''HIGH''))"
proof -
  have h: "''HIGH'' \<in> set [''LOW'', ''MEDIUM'', ''HIGH'']" by simp
  show ?thesis
    using risk_level_changes [OF h, of "0.5" "''DEEPFAKE''" settings
        "rule1 0.5 (init_vars ''DEEPFAKE'' ''HIGH'')"]
      risk_level_changes [OF h, of "0.9" "''DEEPFAKE''" settings
        "rule1 0.9 (init_vars ''DEEPFAKE'' ''HIGH'')"]
    by (simp add: settings_def)
qed

text \<open>
  C9 as stated does not hold. \<^verbatim>\<open>apply_policy_rules\<close> has no raise statement and no check
  of the configuration: with the two thresholds exchanged (low 0.75, high 0.40), and with a
  runtime mode that is no known mode, the call returns an ordinary decision.
\<close>

theorem configuration_not_validated_counterexample:
  "DEEPFAKE_THRESHOLD_HIGH
      (settings\<lparr>DEEPFAKE_THRESHOLD_LOW := 0.75, DEEPFAKE_THRESHOLD_HIGH := 0.40\<rparr>)
     \<le> DEEPFAKE_THRESHOLD_LOW
      (settings\<lparr>DEEPFAKE_THRESHOLD_LOW := 0.75, DEEPFAKE_THRESHOLD_HIGH := 0.40\<rparr>)
   \<and> apply_policy_rules
        (settings\<lparr>DEEPFAKE_THRESHOLD_LOW := 0.75, DEEPFAKE_THRESHOLD_HIGH := 0.40\<rparr>)
        ''UNCERTAIN'' 0.5 ''MEDIUM''
      = \<lparr>verdict = ''UNCERTAIN'', risk_level = ''HIGH'',
         policy_applied = [''OFFLINE_PRECAUTIONARY_ESCALATION''],
         action_required = ''MANUAL_INSPECTION''\<rparr>
   \<and> apply_policy_rules (settings\<lparr>RUNTIME_MODE := ''UNKNOWN_MODE''\<rparr>)
        ''UNCERTAIN'' 0.5 ''MEDIUM''
      = \<lparr>verdict = ''UNCERTAIN'', risk_level = ''MEDIUM'',
         policy_applied = [''REQUIRES_HUMAN_REVIEW''],
         action_required = ''NONE''\<rparr>"
  by (simp add: apply_policy_rules_def decision_of_def rule1_def rule2_def rule3_def
      init_vars_def settings_def)

text \<open>
  C9, amended. The policy stage accepts every configuration and always returns a decision.
  With threshold_low at or above threshold_high rule 2 never fires; with any runtime mode
  other than EDGE_OFFLINE, known or not, rule 3 never fires; with both, the decision is the
  one rule 1 alone produces.
\<close>

theorem configuration_not_validated:
  "(DEEPFAKE_THRESHOLD_HIGH cfg \<le> DEEPFAKE_THRESHOLD_LOW cfg \<longrightarrow>
      rule2 cfg confidence st = st)
   \<and> (RUNTIME_MODE cfg \<noteq> ''EDGE_OFFLINE'' \<longrightarrow> rule3 cfg st = st)
   \<and> (DEEPFAKE_THRESHOLD_HIGH cfg \<le> DEEPFAKE_THRESHOLD_LOW cfg
        \<and> RUNTIME_MODE cfg \<noteq> ''EDGE_OFFLINE'' \<longrightarrow>
        apply_policy_rules cfg verdict_in confidence risk_level_in
          = decision_of (rule1 confidence (init_vars verdict_in risk_level_in)))"
  by (simp add: apply_policy_rules_def rule2_def rule3_def)

theorem configuration_not_validated_witness:
  "(0.40::real) \<le> 0.75 \<and> ''UNKNOWN_MODE'' \<noteq> ''EDGE_OFFLINE''
   \<and> rule2 \<lparr>RUNTIME_MODE = ''UNKNOWN_MODE'', DEEPFAKE_THRESHOLD_HIGH = 0.40,
             DEEPFAKE_THRESHOLD_LOW = 0.75\<rparr> 0.5 (init_vars ''UNCERTAIN'' ''MEDIUM'')
       = init_vars ''UNCERTAIN'' ''MEDIUM''
   \<and> rule3 \<lparr>RUNTIME_MODE = ''UNKNOWN_MODE'', DEEPFAKE_THRESHOLD_HIGH = 0.40,
             DEEPFAKE_THRESHOLD_LOW = 0.75\<rparr> (init_vars ''UNCERTAIN'' ''MEDIUM'')
       = init_vars ''UNCERTAIN'' ''MEDIUM''
   \<and> apply_policy_rules \<lparr>RUNTIME_MODE = ''UNKNOWN_MODE'', DEEPFAKE_THRESHOLD_HIGH = 0.40,
             DEEPFAKE_THRESHOLD_LOW = 0.75\<rparr> ''UNCERTAIN'' 0.5 ''MEDIUM''
       = \<lparr>verdict = ''UNCERTAIN'', risk_level = ''MEDIUM'', policy_applied = [],
          action_required = ''NONE''\<rparr>"
  using configuration_not_validated
    [of "\<lparr>RUNTIME_MODE = ''UNKNOWN_MODE'', DEEPFAKE_THRESHOLD_HIGH = 0.40,
          DEEPFAKE_THRESHOLD_LOW = 0.75\<rparr>" "0.5" "init_vars ''UNCERTAIN'' ''MEDIUM''"
        "''UNCERTAIN''" "''MEDIUM''"]
  by (simp add: decision_of_def rule1_def init_vars_def)

section \<open>Properties of the classifier\<close>

text \<open>
  C4. For thresholds with threshold_low < threshold_high, classify returns (DEEPFAKE, HIGH)
  when the confidence is at least threshold_high, (REAL, LOW) when it is at most
  threshold_low, and (UNCERTAIN, MEDIUM) strictly between them; a confidence equal to a
  threshold falls under the first or the second case.
\<close>

theorem classify_contract:
  "threshold_low < threshold_high \<Longrightarrow>
     (confidence \<ge> threshold_high \<longrightarrow>
        classify confidence threshold_low threshold_high = (''DEEPFAKE'', ''HIGH''))
     \<and> (confidence \<le> threshold_low \<longrightarrow>
        classify confidence threshold_low threshold_high = (''REAL'', ''LOW''))
     \<and> (threshold_low < confidence \<and> confidence < threshold_high \<longrightarrow>
        classify confidence threshold_low threshold_high = (''UNCERTAIN'', ''MEDIUM''))
     \<and> classify threshold_high threshold_low threshold_high = (''DEEPFAKE'', ''HIGH'')
     \<and> classify threshold_low threshold_low threshold_high = (''REAL'', ''LOW'')"
  by (simp add: classify_def)

theorem classify_contract_witness:
  "(0.40::real) < 0.75
   \<and> classify 0.9 0.40 0.75 = (''DEEPFAKE'', ''HIGH'')
   \<and> classify 0.2 0.40 0.75 = (''REAL'', ''LOW'')
   \<and> classify 0.5 0.40 0.75 = (''UNCERTAIN'', ''MEDIUM'')
   \<and> classify 0.75 0.40 0.75 = (''DEEPFAKE'', ''HIGH'')
   \<and> classify 0.40 0.40 0.75 = (''REAL'', ''LOW'')"
proof -
  have h: "(0.40::real) < 0.75" by simp
  show ?thesis
    using h classify_contract [OF h, of "0.9"] classify_contract [OF h, of "0.2"]
      classify_contract [OF h, of "0.5"]
    by simp
qed

section \<open>Properties of the temporal aggregation\<close>

text \<open>
  The list indices read by \<open>percentile_linear\<close> (for a percentage between 0 and 100) and
  by \<open>median_sorted\<close> lie within the array as soon as it is not empty.
\<close>

lemma percentile_index_in_range:
  assumes "xs \<noteq> []" and "0 \<le> q" and "q \<le> 100"
  shows "nat \<lfloor>(q / 100) * real (length (sort xs) - 1)\<rfloor> < length (sort xs)"
proof -
  define n where "n = length (sort xs)"
  define v where "v = (q / 100) * real (n - 1)"
  have n: "0 < n" using assms(1) by (simp add: n_def)
  have "v \<le> 1 * real (n - 1)"
    unfolding v_def using assms(2,3) by (intro mult_right_mono) simp_all
  then have "v \<le> of_int (int (n - 1))" by simp
  then have "\<lfloor>v\<rfloor> \<le> int (n - 1)" by (simp only: floor_le_iff)
  then have "nat \<lfloor>v\<rfloor> \<le> n - 1" by linarith
  then show ?thesis using n unfolding v_def n_def by linarith
qed

lemma median_index_in_range:
  "arr \<noteq> [] \<Longrightarrow> length arr div 2 < length arr \<and> length arr div 2 - 1 < length arr"
  by (cases arr) auto

text \<open>Without a NaN, \<open>finite_values\<close> gives all the values.\<close>

lemma finite_values_no_nan: "NaN \<notin> set a \<Longrightarrow> map Finite (finite_values a) = a"
  by (induction a rule: finite_values.induct) auto

lemma finite_values_map_filter:
  "finite_values a = map (\<lambda>s. case s of Finite x \<Rightarrow> x | NaN \<Rightarrow> 0) (filter (\<lambda>s. s \<noteq> NaN) a)"
  by (induction a rule: finite_values.induct) auto

text \<open>Every step of the aggregation depends on its array only through the multiset.\<close>

lemma mset_finite_values:
  "mset a = mset b \<Longrightarrow> mset (finite_values a) = mset (finite_values b)"
  by (simp add: finite_values_map_filter)

lemma sort_permuted: "mset a = mset b \<Longrightarrow> sort a = sort (b :: real list)"
  by (rule properties_for_sort) simp_all

lemma mset_eq_Nil_iff: "mset a = mset b \<Longrightarrow> (a = []) = (b = [])"
  by (metis mset_zero_iff)

lemma np_percentile_mset: "mset a = mset b \<Longrightarrow> np_percentile a q = np_percentile b q"
  using mset_eq_Nil_iff [of a b] mset_eq_setD [of a b]
    sort_permuted [OF mset_finite_values, of a b]
  by (simp add: np_percentile_def percentile_linear_def)

lemma np_median_mset: "mset a = mset b \<Longrightarrow> np_median a = np_median b"
  using mset_eq_Nil_iff [of a b] mset_eq_setD [of a b]
    sort_permuted [OF mset_finite_values, of a b]
  by (simp add: np_median_def)

lemma np_clip_mset: "mset a = mset b \<Longrightarrow> mset (np_clip a lo hi) = mset (np_clip b lo hi)"
  by (simp add: np_clip_def)

lemma remove_outliers_mset:
  assumes "mset a = mset b"
  shows "mset (remove_outliers a) = mset (remove_outliers b)"
proof -
  have lo: "np_percentile a 5 = np_percentile b 5" using assms by (rule np_percentile_mset)
  have up: "np_percentile a 95 = np_percentile b 95" using assms by (rule np_percentile_mset)
  define keep where "keep = (\<lambda>s. float_le (np_percentile b 5) s \<and> float_le s (np_percentile b 95))"
  have fl: "mset (filter keep a) = mset (filter keep b)"
    using assms by simp
  then have len: "length (filter keep a) = length (filter keep b)"
    by (rule mset_eq_length)
  have ra: "remove_outliers a = (if length (filter keep a) = 0 then a else filter keep a)"
    by (simp only: remove_outliers_def Let_def lo up keep_def)
  have rb: "remove_outliers b = (if length (filter keep b) = 0 then b else filter keep b)"
    by (simp only: remove_outliers_def Let_def keep_def)
  show ?thesis
  proof (cases "length (filter keep b) = 0")
    case True
    then show ?thesis using len assms by (simp add: ra rb)
  next
    case False
    then show ?thesis using len fl by (simp add: ra rb)
  qed
qed

text \<open>Clipping, filtering and the median keep the values within the unit interval.\<close>

lemma clip_value_cases:
  "clip_value 0 1 s = NaN \<or> (\<exists>x. clip_value 0 1 s = Finite x \<and> 0 \<le> x \<and> x \<le> 1)"
  by (cases s) simp_all

lemma clip_value_unit:
  "s \<in> set (np_clip a 0 1) \<Longrightarrow> s \<noteq> NaN \<Longrightarrow> \<exists>x. s = Finite x \<and> 0 \<le> x \<and> x \<le> 1"
  using clip_value_cases by (auto simp add: np_clip_def)

lemma np_clip_nan: "NaN \<in> set (np_clip a lo hi) \<longleftrightarrow> NaN \<in> set a"
proof (induction a)
  case Nil
  then show ?case by (simp add: np_clip_def)
next
  case (Cons s a)
  then show ?case by (cases s) (auto simp add: np_clip_def)
qed

lemma median_sorted_bounds:
  assumes "arr \<noteq> []" and "\<forall>x\<in>set arr. lo \<le> x \<and> x \<le> hi"
  shows "lo \<le> median_sorted arr \<and> median_sorted arr \<le> hi"
proof -
  let ?n = "length arr"
  have n: "0 < ?n" using assms(1) by simp
  have a: "lo \<le> arr ! (?n div 2) \<and> arr ! (?n div 2) \<le> hi"
    using assms(2) n by (simp add: nth_mem)
  have b: "lo \<le> arr ! (?n div 2 - 1) \<and> arr ! (?n div 2 - 1) \<le> hi"
    using assms(2) n by (simp add: less_imp_diff_less)
  show ?thesis using a b by (simp add: median_sorted_def Let_def)
qed

lemma np_median_unit:
  assumes "a \<noteq> []" and "NaN \<notin> set a"
    and "\<forall>s\<in>set a. \<exists>x. s = Finite x \<and> 0 \<le> x \<and> x \<le> 1"
  shows "\<exists>r. np_median a = Finite r \<and> 0 \<le> r \<and> r \<le> 1"
proof -
  have eq: "map Finite (finite_values a) = a" using assms(2) by (rule finite_values_no_nan)
  have ne: "sort (finite_values a) \<noteq> []"
    using assms(1) eq by (metis length_greater_0_conv length_map length_sort)
  have "\<forall>x\<in>set (finite_values a). 0 \<le> x \<and> x \<le> 1"
  proof
    fix x assume "x \<in> set (finite_values a)"
    then have "Finite x \<in> set a" using eq by (metis image_eqI set_map)
    then show "0 \<le> x \<and> x \<le> 1" using assms(3) by auto
  qed
  then have "\<forall>x\<in>set (sort (finite_values a)). 0 \<le> x \<and> x \<le> 1" by simp
  then show ?thesis
    using median_sorted_bounds [OF ne] assms(1,2) by (simp add: np_median_def)
qed

lemma remove_outliers_subset: "set (remove_outliers a) \<subseteq> set a"
  by (simp add: remove_outliers_def Let_def)

lemma remove_outliers_nonempty: "a \<noteq> [] \<Longrightarrow> remove_outliers a \<noteq> []"
  by (simp add: remove_outliers_def Let_def)

text \<open>
  C8. The aggregate depends on the scores only through their multiset: two sequences that
  are permutations of one another get the same aggregate.
\<close>

theorem aggregate_permutation_invariant:
  "mset predictions = mset permuted \<Longrightarrow>
     aggregate_predictions predictions = aggregate_predictions permuted"
proof -
  assume p: "mset predictions = mset permuted"
  have "mset (np_clip predictions 0 1) = mset (np_clip permuted 0 1)"
    using p by (rule np_clip_mset)
  then have "mset (remove_outliers (np_clip predictions 0 1))
      = mset (remove_outliers (np_clip permuted 0 1))"
    by (rule remove_outliers_mset)
  then have "np_median (remove_outliers (np_clip predictions 0 1))
      = np_median (remove_outliers (np_clip permuted 0 1))"
    by (rule np_median_mset)
  then show ?thesis
    using mset_eq_Nil_iff [OF p] by (simp add: aggregate_predictions_def)
qed

theorem aggregate_permutation_invariant_witness:
  "mset [Finite 0.9, Finite 0.1, Finite 0.5, Finite 0.7]
     = mset [Finite 0.5, Finite 0.7, Finite 0.1, Finite 0.9]
   \<and> aggregate_predictions [Finite 0.9, Finite 0.1, Finite 0.5, Finite 0.7]
     = aggregate_predictions [Finite 0.5, Finite 0.7, Finite 0.1, Finite 0.9]"
proof -
  have h: "mset [Finite 0.9, Finite 0.1, Finite 0.5, Finite 0.7]
     = mset [Finite 0.5, Finite 0.7, Finite 0.1, Finite 0.9]"
    by simp
  show ?thesis
    using h aggregate_permutation_invariant [OF h] by (simp only: simp_thms)
qed

text \<open>
  C7 as stated does not hold for every sequence of floats: a NaN is not clipped, makes both
  percentiles NaN, so that the filter keeps nothing and the full array is used, and the
  median of an array with a NaN is NaN, which is no number of the unit interval.
\<close>

theorem aggregate_nan_counterexample:
  "np_clip [NaN] 0 1 = [NaN]
   \<and> remove_outliers [NaN] = [NaN]
   \<and> aggregate_predictions [NaN] = NaN
   \<and> aggregate_predictions [Finite 0.2, NaN, Finite 0.9] = NaN"
  by (simp add: aggregate_predictions_def remove_outliers_def np_clip_def np_percentile_def
      np_median_def)

text \<open>
  C7, amended. The aggregate of the empty sequence is 0, and for every sequence of floats
  that holds no NaN, values outside the unit interval included, the aggregate is a number r
  with 0 \<le> r \<le> 1. The function has no raise statement and the model is total.
\<close>

theorem aggregate_range:
  "aggregate_predictions [] = Finite 0
   \<and> (NaN \<notin> set predictions \<longrightarrow>
        (\<exists>r. aggregate_predictions predictions = Finite r \<and> 0 \<le> r \<and> r \<le> 1))"
proof (intro conjI impI)
  show "aggregate_predictions [] = Finite 0" by (simp add: aggregate_predictions_def)
next
  assume nn: "NaN \<notin> set predictions"
  show "\<exists>r. aggregate_predictions predictions = Finite r \<and> 0 \<le> r \<and> r \<le> 1"
  proof (cases "predictions = []")
    case True
    then show ?thesis by (simp add: aggregate_predictions_def)
  next
    case False
    define scores where "scores = np_clip predictions 0 1"
    define kept where "kept = remove_outliers scores"
    have s_ne: "scores \<noteq> []" using False by (simp add: scores_def np_clip_def)
    have s_nn: "NaN \<notin> set scores" using nn by (simp add: scores_def np_clip_nan)
    have f_ne: "kept \<noteq> []" using s_ne unfolding kept_def by (rule remove_outliers_nonempty)
    have f_sub: "set kept \<subseteq> set scores" unfolding kept_def by (rule remove_outliers_subset)
    have f_nn: "NaN \<notin> set kept" using f_sub s_nn by blast
    have "\<forall>s\<in>set kept. \<exists>x. s = Finite x \<and> 0 \<le> x \<and> x \<le> 1"
    proof
      fix s assume "s \<in> set kept"
      then have "s \<in> set (np_clip predictions 0 1)" "s \<noteq> NaN"
        using f_sub f_nn by (auto simp add: scores_def)
      then show "\<exists>x. s = Finite x \<and> 0 \<le> x \<and> x \<le> 1" by (rule clip_value_unit)
    qed
    then have "\<exists>r. np_median kept = Finite r \<and> 0 \<le> r \<and> r \<le> 1"
      by (rule np_median_unit [OF f_ne f_nn])
    then show ?thesis using False by (simp add: aggregate_predictions_def kept_def scores_def)
  qed
qed

theorem aggregate_range_witness:
  "NaN \<notin> set [Finite 2, Finite (- 1), Finite 0.3]
   \<and> (\<exists>r. aggregate_predictions [Finite 2, Finite (- 1), Finite 0.3] = Finite r
          \<and> 0 \<le> r \<and> r \<le> 1)
   \<and> np_clip [Finite 2, Finite (- 1), Finite 0.3] 0 1 = [Finite 1, Finite 0, Finite 0.3]"
  using aggregate_range [of "[Finite 2, Finite (- 1), Finite 0.3]"]
  by (simp add: np_clip_def)

text \<open>
  C3. On the ten scores of the scenario nothing is changed by the clipping, the 5th
  percentile is 0.374 and the 95th is 0.8355, the filter removes the outlier 0.05 (and
  0.84), the eight scores left are used and not the full array, and their median, the
  aggregate, is 0.80. In this model the value is exactly 4/5; the code computes it in
  32-bit floats.
\<close>

theorem scenario_aggregate:
  "np_clip scenario_scores 0 1 = scenario_scores
   \<and> np_percentile scenario_scores 5 = Finite 0.374
   \<and> np_percentile scenario_scores 95 = Finite 0.8355
   \<and> remove_outliers scenario_scores
       = map Finite [0.81, 0.79, 0.83, 0.80, 0.82, 0.78, 0.80, 0.77]
   \<and> Finite 0.05 \<notin> set (remove_outliers scenario_scores)
   \<and> aggregate_predictions scenario_scores = Finite 0.80"
proof -
  have c: "np_clip scenario_scores 0 1 = scenario_scores"
    by (simp add: np_clip_def scenario_scores_def)
  have lo: "np_percentile scenario_scores 5 = Finite 0.374"
    by (simp add: np_percentile_def scenario_scores_def percentile_linear_def Let_def)
  have up: "np_percentile scenario_scores 95 = Finite 0.8355"
    by (simp add: np_percentile_def scenario_scores_def percentile_linear_def Let_def)
  have r: "remove_outliers scenario_scores
       = map Finite [0.81, 0.79, 0.83, 0.80, 0.82, 0.78, 0.80, 0.77]"
    unfolding remove_outliers_def lo up by (simp add: scenario_scores_def)
  have m: "np_median (map Finite [0.81, 0.79, 0.83, 0.80, 0.82, 0.78, 0.80, 0.77])
       = Finite 0.80"
    by (simp add: np_median_def median_sorted_def)
  have a: "aggregate_predictions scenario_scores = Finite 0.80"
    unfolding aggregate_predictions_def c r m by (simp add: scenario_scores_def)
  have n: "Finite 0.05 \<notin> set (remove_outliers scenario_scores)"
    unfolding r by simp
  show ?thesis using c lo up r n a by (simp only: simp_thms)
qed

section \<open>Properties of the audio fusion\<close>

text \<open>Rounding moves a number below 2 by at most 2 to the power -53.\<close>

lemma round_half_even_error: "\<bar>of_int (round_half_even y) - y\<bar> \<le> 1 / 2"
proof -
  have "of_int \<lfloor>y\<rfloor> \<le> y" "y < of_int \<lfloor>y\<rfloor> + 1" by linarith+
  then show ?thesis by (auto simp add: round_half_even_def Let_def)
qed

lemma fl64_error:
  assumes "\<bar>r\<bar> < 2"
  shows "\<bar>fl64 r - r\<bar> \<le> 1 / 2 ^ 53"
proof (cases "r = 0")
  case True
  then show ?thesis by (simp add: fl64_def)
next
  case False
  define e where "e = max \<lfloor>log 2 \<bar>r\<bar>\<rfloor> (- 1022)"
  define q where "q = (2::real) powr (of_int (e - 52))"
  have qpos: "0 < q" by (simp add: q_def)
  have "log 2 \<bar>r\<bar> < 1" using assms False by (simp add: log_less_iff)
  then have "\<lfloor>log 2 \<bar>r\<bar>\<rfloor> \<le> 0" by (simp add: floor_le_iff)
  then have e0: "e \<le> 0" by (simp add: e_def)
  then have "real_of_int (e - 52) \<le> - 52" by simp
  then have "q \<le> 2 powr (- 52)" unfolding q_def by (simp only: powr_le_cancel_iff)
  also have "(2::real) powr (- 52) = 1 / 2 ^ 52" by (simp add: powr_minus_divide)
  finally have q52: "q \<le> 1 / 2 ^ 52" .
  have f: "fl64 r = of_int (round_half_even (r / q)) * q"
    using False by (simp add: fl64_def e_def q_def Let_def)
  have "fl64 r - r = (of_int (round_half_even (r / q)) - r / q) * q"
    using qpos by (simp add: f field_simps)
  then have "\<bar>fl64 r - r\<bar> = \<bar>of_int (round_half_even (r / q)) - r / q\<bar> * q"
    using qpos by (simp add: abs_mult)
  also have "\<dots> \<le> (1 / 2) * q"
    using round_half_even_error [of "r / q"] qpos by (intro mult_right_mono) simp_all
  also have "\<dots> \<le> 1 / 2 ^ 53" using q52 by simp
  finally show ?thesis .
qed

lemma fl64_eval:
  assumes "- 1022 \<le> e"
    and "2 powr (of_int e) \<le> \<bar>r\<bar>" and "\<bar>r\<bar> < 2 powr (of_int (e + 1))"
    and "round_half_even (r / 2 powr (of_int (e - 52))) = m"
  shows "fl64 r = of_int m * 2 powr (of_int (e - 52))"
proof -
  have pos: "0 < \<bar>r\<bar>" using assms(2) by (smt (verit) powr_gt_zero)
  have "\<lfloor>log 2 \<bar>r\<bar>\<rfloor> = e"
    using assms(2,3) pos by (simp add: floor_log_eq_powr_iff)
  then show ?thesis using assms(1,4) pos by (simp add: fl64_def Let_def)
qed

text \<open>
  The three weights as dyadic fractions, and the fused score of five signals written out.
\<close>

lemma weight_quarter: "fl64 0.25 = 1 / 4"
  by (rule fl64_eval [where e = "- 2" and m = 4503599627370496, THEN trans])
     (simp_all add: round_half_even_def powr_minus_divide)

lemma weight_fifth: "fl64 0.20 = 3602879701896397 / 2 ^ 54"
  by (rule fl64_eval [where e = "- 3" and m = 7205759403792794, THEN trans])
     (simp_all add: round_half_even_def powr_minus_divide)

lemma weight_0_15: "fl64 0.15 = 5404319552844595 / 2 ^ 55"
  by (rule fl64_eval [where e = "- 3" and m = 5404319552844595, THEN trans])
     (simp_all add: round_half_even_def powr_minus_divide)

lemma final_score_unfold:
  "final_score \<lparr>spectral_inconsistency = a, pitch_abnormality = b, energy_gaps = c,
        high_freq_artifacts = d, temporal_discontinuity = e\<rparr>
   = fl64 (fl64 (fl64 (fl64 (fl64 (0 + fl64 (a * (1 / 4)))
        + fl64 (b * (3602879701896397 / 2 ^ 54)))
        + fl64 (c * (5404319552844595 / 2 ^ 55)))
        + fl64 (d * (1 / 4)))
        + fl64 (e * (5404319552844595 / 2 ^ 55)))"
  by (simp add: final_score_def signal_values_def weights_def weight_quarter weight_fifth
      weight_0_15 del: power_numeral)

text \<open>
  Ten roundings, five products and five additions, separate the fused score of five equal
  signals from their common value.
\<close>

lemma fused_score_error:
  assumes "0 \<le> x" and "x \<le> 1"
  shows "\<bar>final_score \<lparr>spectral_inconsistency = x, pitch_abnormality = x, energy_gaps = x,
        high_freq_artifacts = x, temporal_discontinuity = x\<rparr> - x\<bar> \<le> 10 / 2 ^ 53"
proof -
  define u :: real where "u = 1 / 2 ^ 53"
  define a where "a = x * (1 / 4)"
  define b where "b = x * (3602879701896397 / 2 ^ 54)"
  define c where "c = x * (5404319552844595 / 2 ^ 55)"
  have u: "0 < u" "u < 1 / 100" by (simp_all add: u_def)
  have a: "0 \<le> a" "a \<le> 1 / 4" using assms by (simp_all add: a_def)
  have b: "0 \<le> b" "b \<le> 1 / 4"
    using assms mult_left_le_one_le [of "3602879701896397 / 2 ^ 54" x]
    by (simp_all add: b_def mult.commute)
  have c: "0 \<le> c" "c \<le> 1 / 4"
    using assms mult_left_le_one_le [of "5404319552844595 / 2 ^ 55" x]
    by (simp_all add: c_def mult.commute)
  have total: "a + b + c + a + c = x" by (simp add: a_def b_def c_def)
  have err: "\<And>r. \<bar>r\<bar> < 2 \<Longrightarrow> \<bar>fl64 r - r\<bar> \<le> u"
    unfolding u_def by (rule fl64_error)
  define p1 where "p1 = fl64 a"
  define p2 where "p2 = fl64 b"
  define p3 where "p3 = fl64 c"
  define s1 where "s1 = fl64 (0 + p1)"
  define s2 where "s2 = fl64 (s1 + p2)"
  define s3 where "s3 = fl64 (s2 + p3)"
  define s4 where "s4 = fl64 (s3 + p1)"
  define s5 where "s5 = fl64 (s4 + p3)"
  have p1: "\<bar>p1 - a\<bar> \<le> u" unfolding p1_def using a by (intro err) linarith
  have p2: "\<bar>p2 - b\<bar> \<le> u" unfolding p2_def using b by (intro err) linarith
  have p3: "\<bar>p3 - c\<bar> \<le> u" unfolding p3_def using c by (intro err) linarith
  have "\<bar>s1 - (0 + p1)\<bar> \<le> u"
    unfolding s1_def using a u p1 by (intro err) linarith
  then have e1: "\<bar>s1 - a\<bar> \<le> 2 * u" using p1 by linarith
  have "\<bar>s2 - (s1 + p2)\<bar> \<le> u"
    unfolding s2_def using a b u e1 p2 by (intro err) linarith
  then have e2: "\<bar>s2 - (a + b)\<bar> \<le> 4 * u" using e1 p2 by linarith
  have "\<bar>s3 - (s2 + p3)\<bar> \<le> u"
    unfolding s3_def using a b c u e2 p3 by (intro err) linarith
  then have e3: "\<bar>s3 - (a + b + c)\<bar> \<le> 6 * u" using e2 p3 by linarith
  have "\<bar>s4 - (s3 + p1)\<bar> \<le> u"
    unfolding s4_def using a b c u e3 p1 by (intro err) linarith
  then have e4: "\<bar>s4 - (a + b + c + a)\<bar> \<le> 8 * u" using e3 p1 by linarith
  have "\<bar>s5 - (s4 + p3)\<bar> \<le> u"
    unfolding s5_def using a b c u e4 p3 by (intro err) linarith
  then have "\<bar>s5 - (a + b + c + a + c)\<bar> \<le> 10 * u" using e4 p3 by linarith
  then have "\<bar>s5 - x\<bar> \<le> 10 * u" by (simp only: total)
  moreover have "final_score \<lparr>spectral_inconsistency = x, pitch_abnormality = x,
        energy_gaps = x, high_freq_artifacts = x, temporal_discontinuity = x\<rparr> = s5"
    by (simp only: final_score_unfold s5_def s4_def s3_def s2_def s1_def p1_def p2_def p3_def
        a_def b_def c_def)
  ultimately show ?thesis by (simp add: u_def)
qed

lemma clip_scalar_bounds:
  "a_min \<le> a_max \<Longrightarrow>
     a_min \<le> clip_scalar x a_min a_max \<and> clip_scalar x a_min a_max \<le> a_max"
  by (auto simp add: clip_scalar_def)

lemma np_std_equal: "np_std [x, x, x, x, x] = 0"
  by (simp add: np_std_def np_mean_def)

text \<open>
  C6 as stated does not hold: the fused score of five equal signals is not always their
  common value. For the double that the literal 0.007 denotes, 8070450532247929 / 2^60,
  the sum of line 60 is the next double below it, 8070450532247928 / 2^60, which prints
  as 0.006999999999999999.
\<close>

theorem fused_score_rounding_counterexample:
  "fl64 0.007 = 8070450532247929 / 2 ^ 60
   \<and> final_score \<lparr>spectral_inconsistency = 8070450532247929 / 2 ^ 60,
        pitch_abnormality = 8070450532247929 / 2 ^ 60,
        energy_gaps = 8070450532247929 / 2 ^ 60,
        high_freq_artifacts = 8070450532247929 / 2 ^ 60,
        temporal_discontinuity = 8070450532247929 / 2 ^ 60\<rparr>
       = 8070450532247928 / 2 ^ 60
   \<and> (8070450532247928 / 2 ^ 60 :: real) < 8070450532247929 / 2 ^ 60
   \<and> final_score \<lparr>spectral_inconsistency = fl64 0.007, pitch_abnormality = fl64 0.007,
        energy_gaps = fl64 0.007, high_freq_artifacts = fl64 0.007,
        temporal_discontinuity = fl64 0.007\<rparr> \<noteq> fl64 0.007"
proof -
  have p1: "fl64 (8070450532247929 / 2 ^ 60 * (1 / 4)) = 8070450532247929 / 2 ^ 62"
    by (rule fl64_eval [where e = "- 10" and m = 8070450532247929, THEN trans])
       (simp_all add: round_half_even_def powr_minus_divide)
  have s1: "fl64 (0 + 8070450532247929 / 2 ^ 62) = 8070450532247929 / 2 ^ 62"
    by (rule fl64_eval [where e = "- 10" and m = 8070450532247929, THEN trans])
       (simp_all add: round_half_even_def powr_minus_divide)
  have p2: "fl64 (8070450532247929 / 2 ^ 60 * (3602879701896397 / 2 ^ 54))
      = 6456360425798344 / 2 ^ 62"
    by (rule fl64_eval [where e = "- 10" and m = 6456360425798344, THEN trans])
       (simp_all add: round_half_even_def powr_minus_divide)
  have s2: "fl64 (8070450532247929 / 2 ^ 62 + 6456360425798344 / 2 ^ 62)
      = 7263405479023136 / 2 ^ 61"
    by (rule fl64_eval [where e = "- 9" and m = 7263405479023136, THEN trans])
       (simp_all add: round_half_even_def powr_minus_divide)
  have p3: "fl64 (8070450532247929 / 2 ^ 60 * (5404319552844595 / 2 ^ 55))
      = 4842270319348757 / 2 ^ 62"
    by (rule fl64_eval [where e = "- 10" and m = 4842270319348757, THEN trans])
       (simp_all add: round_half_even_def powr_minus_divide)
  have s3: "fl64 (7263405479023136 / 2 ^ 61 + 4842270319348757 / 2 ^ 62)
      = 4842270319348757 / 2 ^ 60"
    by (rule fl64_eval [where e = "- 8" and m = 4842270319348757, THEN trans])
       (simp_all add: round_half_even_def powr_minus_divide)
  have s4: "fl64 (4842270319348757 / 2 ^ 60 + 8070450532247929 / 2 ^ 62)
      = 6859882952410739 / 2 ^ 60"
    by (rule fl64_eval [where e = "- 8" and m = 6859882952410739, THEN trans])
       (simp_all add: round_half_even_def powr_minus_divide)
  have s5: "fl64 (6859882952410739 / 2 ^ 60 + 4842270319348757 / 2 ^ 62)
      = 8070450532247928 / 2 ^ 60"
    by (rule fl64_eval [where e = "- 8" and m = 8070450532247928, THEN trans])
       (simp_all add: round_half_even_def powr_minus_divide)
  have lit: "fl64 0.007 = 8070450532247929 / 2 ^ 60"
    by (rule fl64_eval [where e = "- 8" and m = 8070450532247929, THEN trans])
       (simp_all add: round_half_even_def powr_minus_divide)
  have fs: "final_score \<lparr>spectral_inconsistency = 8070450532247929 / 2 ^ 60,
        pitch_abnormality = 8070450532247929 / 2 ^ 60,
        energy_gaps = 8070450532247929 / 2 ^ 60,
        high_freq_artifacts = 8070450532247929 / 2 ^ 60,
        temporal_discontinuity = 8070450532247929 / 2 ^ 60\<rparr>
       = 8070450532247928 / 2 ^ 60"
    by (simp only: final_score_unfold p1 s1 p2 s2 p3 s3 s4 s5)
  have lt: "(8070450532247928 / 2 ^ 60 :: real) < 8070450532247929 / 2 ^ 60"
    by simp
  have ne: "final_score \<lparr>spectral_inconsistency = fl64 0.007, pitch_abnormality = fl64 0.007,
        energy_gaps = fl64 0.007, high_freq_artifacts = fl64 0.007,
        temporal_discontinuity = fl64 0.007\<rparr> \<noteq> fl64 0.007"
    unfolding lit fs using lt by simp
  show ?thesis using lit fs lt ne by (intro conjI)
qed

text \<open>
  C6, amended. The five weights, as doubles, sum to exactly 1. When all five signals have
  the same value x of the unit interval, the fused score differs from x by at most
  10 / 2^53, the rounding of five products and five additions, and the confidence is the
  ceiling 0.95, the standard deviation being 0. For every signal set the confidence lies
  between 0.30 and 0.95.
\<close>

theorem audio_fusion_rounding_and_bounds:
  "sum_list (signal_values weights) = 1
   \<and> (0 \<le> x \<and> x \<le> 1 \<longrightarrow>
        \<bar>final_score \<lparr>spectral_inconsistency = x, pitch_abnormality = x, energy_gaps = x,
           high_freq_artifacts = x, temporal_discontinuity = x\<rparr> - x\<bar> \<le> 10 / 2 ^ 53)
   \<and> calculate_confidence \<lparr>spectral_inconsistency = x, pitch_abnormality = x,
        energy_gaps = x, high_freq_artifacts = x, temporal_discontinuity = x\<rparr> = 0.95
   \<and> 0.30 \<le> calculate_confidence sig \<and> calculate_confidence sig \<le> 0.95"
proof (intro conjI impI)
  show "sum_list (signal_values weights) = 1"
    by (simp only: signal_values_def weights_def signals.simps weight_quarter weight_fifth
        weight_0_15) simp
  show "\<bar>final_score \<lparr>spectral_inconsistency = x, pitch_abnormality = x, energy_gaps = x,
           high_freq_artifacts = x, temporal_discontinuity = x\<rparr> - x\<bar> \<le> 10 / 2 ^ 53"
    if "0 \<le> x \<and> x \<le> 1"
    using that by (intro fused_score_error) simp_all
  show "calculate_confidence \<lparr>spectral_inconsistency = x, pitch_abnormality = x,
        energy_gaps = x, high_freq_artifacts = x, temporal_discontinuity = x\<rparr> = 0.95"
    by (simp add: calculate_confidence_def signal_values_def np_std_equal clip_scalar_def)
  have "(0.3::real) \<le> 0.95" by simp
  then have b: "0.3 \<le> clip_scalar (1.0 - np_std (signal_values sig)) 0.3 0.95
      \<and> clip_scalar (1.0 - np_std (signal_values sig)) 0.3 0.95 \<le> 0.95"
    by (rule clip_scalar_bounds)
  show "0.30 \<le> calculate_confidence sig"
    using b by (simp add: calculate_confidence_def Let_def)
  show "calculate_confidence sig \<le> 0.95"
    using b by (simp add: calculate_confidence_def Let_def)
qed

theorem audio_fusion_rounding_and_bounds_witness:
  "(0::real) \<le> 1 / 2 \<and> (1 / 2 :: real) \<le> 1
   \<and> \<bar>final_score \<lparr>spectral_inconsistency = 1 / 2, pitch_abnormality = 1 / 2,
         energy_gaps = 1 / 2, high_freq_artifacts = 1 / 2,
         temporal_discontinuity = 1 / 2\<rparr> - 1 / 2\<bar> \<le> 10 / 2 ^ 53
   \<and> calculate_confidence \<lparr>spectral_inconsistency = 1 / 2, pitch_abnormality = 1 / 2,
         energy_gaps = 1 / 2, high_freq_artifacts = 1 / 2,
         temporal_discontinuity = 1 / 2\<rparr> = 0.95"
  using audio_fusion_rounding_and_bounds [of "1 / 2"] by simp

end
